theory Spec2Isabelle
  imports Main "HOL-Library.Multiset"
begin

section \<open>Data model\<close>

text \<open>
  The server keeps its tasks in \<^verbatim>\<open>MemStorage\<close> (server/storage.ts), the HTTP handlers
  live in server/routes.ts, the upstream clients in server/openai.ts and the CSV export in
  client/src/pages/task-converter.tsx. The module \<^verbatim>\<open>@shared/schema\<close> that declares the
  types \<^verbatim>\<open>Task\<close> and \<^verbatim>\<open>InsertTask\<close> and the validator \<^verbatim>\<open>insertTaskSchema\<close> is not part
  of the sources.

  JavaScript numbers that hold ids and counters are modelled as \<open>int\<close>: the store only
  ever adds one to them, which is exact below \<open>2^53\<close>.

  The field \<^verbatim>\<open>createdAt\<close> holds the \<^verbatim>\<open>Date\<close> that \<^verbatim>\<open>createTask\<close> made or, after an
  update whose body carries the key, the JSON number that came with it. Both are
  modelled by an \<open>int\<close>: the milliseconds since the epoch for a date, the number itself
  for a number. A body whose \<^verbatim>\<open>createdAt\<close> is anything but a whole number is not
  modelled.
\<close>

text \<open>
  Modelled from the spec: the type \<^verbatim>\<open>Task\<close> of @shared/schema is missing. The spec's data
  model gives a task record the fields id, description, assignee, deadline, priority and
  createdAt; server/openai.ts and the client's task card treat priority as a string.
\<close>

record Task =
  task_id :: int
  description :: string
  assignee :: string
  deadline :: string
  priority :: string
  createdAt :: int

text \<open>
  Modelled from the spec: the type \<^verbatim>\<open>InsertTask\<close> of @shared/schema is missing. It is a
  task record without id and createdAt; \<^verbatim>\<open>createTask\<close> reads
  \<^verbatim>\<open>insertTask.priority || "P3"\<close>, so priority may be absent.
\<close>

record InsertTask =
  ins_description :: string
  ins_assignee :: string
  ins_deadline :: string
  ins_priority :: "string option"

text \<open>
  The \<^verbatim>\<open>updates\<close> argument of \<^verbatim>\<open>updateTask\<close>. Its declared type is
  \<^verbatim>\<open>Partial<InsertTask>\<close>, but the PUT handler hands over \<^verbatim>\<open>req.body\<close> as it
  arrives, so any key of a task may be present: \<open>None\<close> is an absent key, \<open>Some v\<close>
  a key present with value \<open>v\<close>. A \<^verbatim>\<open>createdAt\<close> that arrives in a JSON body is
  never a \<^verbatim>\<open>Date\<close>; the model covers the body in which it is a whole number.
\<close>

record TaskUpdates =
  upd_id :: "int option"
  upd_description :: "string option"
  upd_assignee :: "string option"
  upd_deadline :: "string option"
  upd_priority :: "string option"
  upd_createdAt :: "int option"

section \<open>The JavaScript Map that holds the tasks\<close>

text \<open>
  A \<^verbatim>\<open>Map<number, Task>\<close> iterates in insertion order, so it is an association list:
  \<^verbatim>\<open>set\<close> on a key already present replaces the value where it stands, on a new key
  it appends; \<^verbatim>\<open>delete\<close> removes the entry and tells whether there was one.
\<close>

fun Map_get :: "(int \<times> 'v) list \<Rightarrow> int \<Rightarrow> 'v option" where
  "Map_get [] k = None"
| "Map_get ((k', v) # m) k = (if k' = k then Some v else Map_get m k)"

fun Map_set :: "int \<Rightarrow> 'v \<Rightarrow> (int \<times> 'v) list \<Rightarrow> (int \<times> 'v) list" where
  "Map_set k v [] = [(k, v)]"
| "Map_set k v ((k', v') # m) = (if k' = k then (k, v) # m else (k', v') # Map_set k v m)"

fun Map_has :: "(int \<times> 'v) list \<Rightarrow> int \<Rightarrow> bool" where
  "Map_has [] k = False"
| "Map_has ((k', v) # m) k = (k' = k \<or> Map_has m k)"

fun Map_delete :: "int \<Rightarrow> (int \<times> 'v) list \<Rightarrow> (int \<times> 'v) list" where
  "Map_delete k [] = []"
| "Map_delete k ((k', v) # m) = (if k' = k then Map_delete k m else (k', v) # Map_delete k m)"

definition Map_values :: "(int \<times> 'v) list \<Rightarrow> 'v list" where
  "Map_values m = map snd m"

section \<open>Array.prototype.sort\<close>

text \<open>
  \<^verbatim>\<open>new Date(v).getTime()\<close> for a date or a number \<open>v\<close>: the time value, which is
  \<^verbatim>\<open>NaN\<close> (here \<open>None\<close>) when \<open>v\<close> lies more than 8.64e15 milliseconds from the
  epoch.
\<close>

definition getTime :: "int \<Rightarrow> int option" where
  "getTime v = (if - 8640000000000000 \<le> v \<and> v \<le> 8640000000000000 then Some v else None)"

text \<open>
  The comparator of \<^verbatim>\<open>getAllTasks\<close>:
  \<^verbatim>\<open>new Date(b.createdAt).getTime() - new Date(a.createdAt).getTime()\<close>. The difference
  is \<^verbatim>\<open>NaN\<close> when one of the two times is.
\<close>

definition compareCreatedAt :: "Task \<Rightarrow> Task \<Rightarrow> int option" where
  "compareCreatedAt a b =
     (case getTime (createdAt b) of
        None \<Rightarrow> None
      | Some tb \<Rightarrow> (case getTime (createdAt a) of None \<Rightarrow> None | Some ta \<Rightarrow> Some (tb - ta)))"

text \<open>
  \<^verbatim>\<open>sort(cmp)\<close> reads a result \<^verbatim>\<open>NaN\<close> of the comparator as zero. It is a stable
  sort: \<open>a\<close> goes before \<open>b\<close> when \<open>cmp a b < 0\<close>, and elements that compare equal
  keep their order. It is modelled as insertion from the right, which is stable. Where
  the comparator is not consistent (it is not, once a \<^verbatim>\<open>NaN\<close> makes unequal elements
  compare equal) the language leaves the order to the implementation; the model is then
  one of the orders allowed. On two elements every implementation agrees with it.
\<close>

definition nan_as_zero :: "int option \<Rightarrow> int" where
  "nan_as_zero v = (case v of None \<Rightarrow> 0 | Some n \<Rightarrow> n)"

fun sort_insert :: "('a \<Rightarrow> 'a \<Rightarrow> int option) \<Rightarrow> 'a \<Rightarrow> 'a list \<Rightarrow> 'a list" where
  "sort_insert cmp x [] = [x]"
| "sort_insert cmp x (y # ys) =
     (if nan_as_zero (cmp x y) \<le> 0 then x # y # ys else y # sort_insert cmp x ys)"

definition Array_sort :: "('a \<Rightarrow> 'a \<Rightarrow> int option) \<Rightarrow> 'a list \<Rightarrow> 'a list" where
  "Array_sort cmp xs = foldr (sort_insert cmp) xs []"

section \<open>MemStorage\<close>

record MemStorage =
  tasks :: "(int \<times> Task) list"
  currentTaskId :: int

definition new_MemStorage :: MemStorage where
  "new_MemStorage = \<lparr>tasks = [], currentTaskId = 1\<rparr>"

definition getAllTasks :: "MemStorage \<Rightarrow> Task list" where
  "getAllTasks s = Array_sort compareCreatedAt (Map_values (tasks s))"

text \<open>\<^verbatim>\<open>insertTask.priority || "P3"\<close>: an absent or empty priority becomes P3.\<close>

definition priority_or_P3 :: "string option \<Rightarrow> string" where
  "priority_or_P3 p = (case p of None \<Rightarrow> ''P3'' | Some v \<Rightarrow> if v = [] then ''P3'' else v)"

text \<open>
  \<^verbatim>\<open>createTask\<close> reads the clock (\<^verbatim>\<open>new Date()\<close>); the time it reads is the argument
  \<open>now\<close>. \<^verbatim>\<open>this.currentTaskId++\<close> yields the old counter and adds one to it.
\<close>

definition createTask :: "InsertTask \<Rightarrow> int \<Rightarrow> MemStorage \<Rightarrow> Task \<times> MemStorage" where
  "createTask insertTask now s =
     (let ident = currentTaskId s;
          s1 = s\<lparr>currentTaskId := ident + 1\<rparr>;
          task = \<lparr>task_id = ident,
                  description = ins_description insertTask,
                  assignee = ins_assignee insertTask,
                  deadline = ins_deadline insertTask,
                  priority = priority_or_P3 (ins_priority insertTask),
                  createdAt = now\<rparr>
      in (task, s1\<lparr>tasks := Map_set ident task (tasks s1)\<rparr>))"

text \<open>The object spread \<^verbatim>\<open>{...existingTask, ...updates}\<close>: every key present in
  \<^verbatim>\<open>updates\<close> replaces the task's value, the id and createdAt included.\<close>

definition spread :: "Task \<Rightarrow> TaskUpdates \<Rightarrow> Task" where
  "spread existingTask updates =
     \<lparr>task_id = (case upd_id updates of None \<Rightarrow> task_id existingTask | Some v \<Rightarrow> v),
      description = (case upd_description updates of None \<Rightarrow> description existingTask | Some v \<Rightarrow> v),
      assignee = (case upd_assignee updates of None \<Rightarrow> assignee existingTask | Some v \<Rightarrow> v),
      deadline = (case upd_deadline updates of None \<Rightarrow> deadline existingTask | Some v \<Rightarrow> v),
      priority = (case upd_priority updates of None \<Rightarrow> priority existingTask | Some v \<Rightarrow> v),
      createdAt = (case upd_createdAt updates of None \<Rightarrow> createdAt existingTask | Some v \<Rightarrow> v)\<rparr>"

text \<open>\<^verbatim>\<open>updateTask\<close> returns \<^verbatim>\<open>null\<close> (here \<open>None\<close>) when the id is not a key.\<close>

definition updateTask :: "int \<Rightarrow> TaskUpdates \<Rightarrow> MemStorage \<Rightarrow> Task option \<times> MemStorage" where
  "updateTask ident updates s =
     (case Map_get (tasks s) ident of
        None \<Rightarrow> (None, s)
      | Some existingTask \<Rightarrow>
          (let updatedTask = spread existingTask updates
           in (Some updatedTask, s\<lparr>tasks := Map_set ident updatedTask (tasks s)\<rparr>)))"

definition deleteTask :: "int \<Rightarrow> MemStorage \<Rightarrow> bool \<times> MemStorage" where
  "deleteTask ident s = (Map_has (tasks s) ident, s\<lparr>tasks := Map_delete ident (tasks s)\<rparr>)"

definition clearAllTasks :: "MemStorage \<Rightarrow> MemStorage" where
  "clearAllTasks s = s\<lparr>tasks := []\<rparr>"

subsection \<open>Sequences of store operations\<close>

datatype store_op =
  CreateTask InsertTask int
| UpdateTask int TaskUpdates
| DeleteTask int
| ClearAllTasks
| GetAllTasks

datatype store_result =
  Created Task
| Updated "Task option"
| Deleted bool
| Cleared
| Listed "Task list"

fun step :: "store_op \<Rightarrow> MemStorage \<Rightarrow> store_result \<times> MemStorage" where
  "step (CreateTask insertTask now) s = (let (t, s') = createTask insertTask now s in (Created t, s'))"
| "step (UpdateTask ident updates) s = (let (r, s') = updateTask ident updates s in (Updated r, s'))"
| "step (DeleteTask ident) s = (let (b, s') = deleteTask ident s in (Deleted b, s'))"
| "step ClearAllTasks s = (Cleared, clearAllTasks s)"
| "step GetAllTasks s = (Listed (getAllTasks s), s)"

fun run :: "store_op list \<Rightarrow> MemStorage \<Rightarrow> store_result list \<times> MemStorage" where
  "run [] s = ([], s)"
| "run (o1 # ops) s =
     (let (r, s') = step o1 s; (rs, s'') = run ops s' in (r # rs, s''))"

text \<open>The ids \<^verbatim>\<open>createTask\<close> returned, in the order of the calls.\<close>

fun issued_ids :: "store_result list \<Rightarrow> int list" where
  "issued_ids [] = []"
| "issued_ids (Created t # rs) = task_id t # issued_ids rs"
| "issued_ids (r # rs) = issued_ids rs"

fun is_create :: "store_op \<Rightarrow> bool" where
  "is_create (CreateTask insertTask now) = True"
| "is_create other = False"

subsection \<open>Priorities\<close>

definition valid_priority :: "string \<Rightarrow> bool" where
  "valid_priority p = (p = ''P1'' \<or> p = ''P2'' \<or> p = ''P3'')"

text \<open>An operation supplies no priority outside P1, P2, P3: \<^verbatim>\<open>createTask\<close> may also get
  none or the empty string (both become P3), \<^verbatim>\<open>updateTask\<close> may leave the key out.\<close>

fun supplies_valid_priority :: "store_op \<Rightarrow> bool" where
  "supplies_valid_priority (CreateTask insertTask now) =
     (case ins_priority insertTask of None \<Rightarrow> True | Some p \<Rightarrow> p = [] \<or> valid_priority p)"
| "supplies_valid_priority (UpdateTask ident updates) =
     (case upd_priority updates of None \<Rightarrow> True | Some p \<Rightarrow> valid_priority p)"
| "supplies_valid_priority other = True"

text \<open>Every record in the store has one of the three priorities.\<close>

definition all_priorities_valid :: "MemStorage \<Rightarrow> bool" where
  "all_priorities_valid s = list_all (\<lambda>entry. valid_priority (priority (snd entry))) (tasks s)"

section \<open>Strings\<close>

text \<open>\<^verbatim>\<open>haystack.includes(needle)\<close>: the needle occurs somewhere in the haystack.\<close>

fun starts_with :: "string \<Rightarrow> string \<Rightarrow> bool" where
  "starts_with s [] = True"
| "starts_with [] (c # cs) = False"
| "starts_with (d # ds) (c # cs) = (d = c \<and> starts_with ds cs)"

fun includes_str :: "string \<Rightarrow> string \<Rightarrow> bool" where
  "includes_str [] needle = (needle = [])"
| "includes_str (d # ds) needle = (starts_with (d # ds) needle \<or> includes_str ds needle)"

text \<open>
  A transcript is trimmed, and what \<^verbatim>\<open>String.prototype.trim\<close> removes is decided by
  UTF-16 code units, so a transcript is the list of its code units. (The other strings
  of the model are only compared, searched for ASCII words and concatenated; they stay
  lists of bytes.)

  \<^verbatim>\<open>trim\<close> removes white space and line terminators from both ends: tab, line feed,
  vertical tab, form feed, carriage return, space, no-break space (U+00A0), the byte
  order mark (U+FEFF), the line and paragraph separators (U+2028, U+2029) and the
  other space separators of Unicode (U+1680, U+2000 to U+200A, U+202F, U+205F, U+3000).
\<close>

type_synonym utf16 = "nat list"

definition is_white_space :: "nat \<Rightarrow> bool" where
  "is_white_space c =
     (c = 0x09 \<or> c = 0x0A \<or> c = 0x0B \<or> c = 0x0C \<or> c = 0x0D \<or> c = 0x20 \<or> c = 0xA0
      \<or> c = 0x1680 \<or> (0x2000 \<le> c \<and> c \<le> 0x200A) \<or> c = 0x2028 \<or> c = 0x2029
      \<or> c = 0x202F \<or> c = 0x205F \<or> c = 0x3000 \<or> c = 0xFEFF)"

definition trim :: "utf16 \<Rightarrow> utf16" where
  "trim s = rev (dropWhile is_white_space (rev (dropWhile is_white_space s)))"

text \<open>The code units of a text written in ASCII.\<close>

definition ascii :: "string \<Rightarrow> utf16" where
  "ascii s = map of_char s"

text \<open>A template literal prints a count in decimal. \<open>digit_char\<close> is only applied to a
  number below ten.\<close>

definition digit_char :: "nat \<Rightarrow> char" where
  "digit_char d = ''0123456789'' ! d"

fun show_nat :: "nat \<Rightarrow> string" where
  "show_nat n = (if n < 10 then [digit_char n] else show_nat (n div 10) @ [digit_char (n mod 10)])"

text \<open>\<^verbatim>\<open>Array.prototype.join\<close>.\<close>

fun join :: "string \<Rightarrow> string list \<Rightarrow> string" where
  "join sep [] = []"
| "join sep [x] = x"
| "join sep (x # y # ys) = x @ sep @ join sep (y # ys)"

section \<open>The task extraction client (server/openai.ts)\<close>

text \<open>
  What \<^verbatim>\<open>JSON.parse\<close> returns. An object is the list of its own properties. The
  extraction only tests a number for being zero, so numbers are integers here.
\<close>

datatype json =
  JNull
| JBool bool
| JNumber int
| JString string
| JArray "json list"
| JObject "(string \<times> json) list"

text \<open>
  The object literal the extraction builds for each candidate. The interface
  \<^verbatim>\<open>ExtractedTask\<close> declares four strings, but the values are whatever the payload held
  (\<^verbatim>\<open>task.description || ""\<close> converts nothing), and the route handlers test them as
  they come. So the fields are JSON values.
\<close>

record ExtractedTask =
  ex_description :: json
  ex_assignee :: json
  ex_deadline :: json
  ex_priority :: json

fun truthy :: "json \<Rightarrow> bool" where
  "truthy JNull = False"
| "truthy (JBool b) = b"
| "truthy (JNumber n) = (n \<noteq> 0)"
| "truthy (JString s) = (s \<noteq> [])"
| "truthy (JArray xs) = True"
| "truthy (JObject kvs) = True"

fun isArray :: "json \<Rightarrow> bool" where
  "isArray (JArray xs) = True"
| "isArray other = False"

text \<open>
  Reading a property \<^verbatim>\<open>v.key\<close>: a \<^verbatim>\<open>TypeError\<close> on \<^verbatim>\<open>null\<close> (\<open>Inl\<close> its
  message), the value of an object's own property, and \<^verbatim>\<open>undefined\<close> (\<open>None\<close>)
  otherwise. The keys read here (tasks, description, assignee, deadline, priority) are
  no built-in properties of strings, numbers, booleans or arrays.
\<close>

fun read_property :: "json \<Rightarrow> string \<Rightarrow> string + json option" where
  "read_property JNull key =
     Inl (''Cannot read properties of null (reading '' @ [CHR 0x27] @ key @ [CHR 0x27] @ '')'')"
| "read_property (JObject kvs) key = Inr (map_of kvs key)"
| "read_property other key = Inr None"

text \<open>\<^verbatim>\<open>v || d\<close>, where \<open>v\<close> may be \<^verbatim>\<open>undefined\<close>.\<close>

definition or_else :: "json option \<Rightarrow> json \<Rightarrow> json" where
  "or_else v d = (case v of None \<Rightarrow> d | Some x \<Rightarrow> if truthy x then x else d)"

text \<open>The callback of \<^verbatim>\<open>tasks.map\<close>; the first property read throws when the element is
  \<^verbatim>\<open>null\<close>.\<close>

definition map_callback :: "json \<Rightarrow> string + ExtractedTask" where
  "map_callback task =
     (case read_property task ''description'' of
        Inl e \<Rightarrow> Inl e
      | Inr d \<Rightarrow>
         (case read_property task ''assignee'' of
            Inl e \<Rightarrow> Inl e
          | Inr a \<Rightarrow>
             (case read_property task ''deadline'' of
                Inl e \<Rightarrow> Inl e
              | Inr dl \<Rightarrow>
                 (case read_property task ''priority'' of
                    Inl e \<Rightarrow> Inl e
                  | Inr p \<Rightarrow>
                      Inr \<lparr>ex_description = or_else d (JString []),
                           ex_assignee = or_else a (JString []),
                           ex_deadline = or_else dl (JString []),
                           ex_priority = or_else p (JString ''P3'')\<rparr>))))"

fun map_tasks :: "json list \<Rightarrow> string + ExtractedTask list" where
  "map_tasks [] = Inr []"
| "map_tasks (task # rest) =
     (case map_callback task of
        Inl e \<Rightarrow> Inl e
      | Inr t \<Rightarrow> (case map_tasks rest of Inl e \<Rightarrow> Inl e | Inr ts \<Rightarrow> Inr (t # ts)))"

text \<open>
  \<^verbatim>\<open>const tasks = Array.isArray(result) ? result : (result.tasks || [])\<close> followed by
  \<^verbatim>\<open>tasks.map(...)\<close>. A value that is no array has no \<^verbatim>\<open>map\<close> method (an object's
  own property of that name would be JSON data, no function), so calling it throws.
\<close>

definition tasks_of_result :: "json \<Rightarrow> string + ExtractedTask list" where
  "tasks_of_result result =
     (case (if isArray result then Inr result
            else (case read_property result ''tasks'' of
                    Inl e \<Rightarrow> Inl e
                  | Inr v \<Rightarrow> Inr (or_else v (JArray [])))) of
        Inl e \<Rightarrow> Inl e
      | Inr (JArray xs) \<Rightarrow> map_tasks xs
      | Inr other \<Rightarrow> Inl ''tasks.map is not a function'')"

text \<open>
  What the upstream completion call and \<^verbatim>\<open>JSON.parse\<close> of its content come to: the
  call throws, the content is empty or missing (then the literal
  \<^verbatim>\<open>{"tasks": []}\<close> is parsed instead), the content is no JSON, or it parses to a value.
\<close>

datatype completion =
  CallFailed string
| NoContent
| Unparsable string
| Parsed json

definition try_extract :: "completion \<Rightarrow> string + ExtractedTask list" where
  "try_extract c =
     (case c of
        CallFailed m \<Rightarrow> Inl m
      | NoContent \<Rightarrow> tasks_of_result (JObject [(''tasks'', JArray [])])
      | Unparsable m \<Rightarrow> Inl m
      | Parsed result \<Rightarrow> tasks_of_result result)"

text \<open>The \<^verbatim>\<open>catch\<close> wraps every error:
  \<^verbatim>\<open>throw new Error("Failed to process transcript with AI: " + error.message)\<close>.
  The upstream service is the function \<open>upstream\<close> from the transcript to its answer.\<close>

definition extractTasksFromTranscript ::
  "(utf16 \<Rightarrow> completion) \<Rightarrow> utf16 \<Rightarrow> string + ExtractedTask list" where
  "extractTasksFromTranscript upstream transcript =
     (case try_extract (upstream transcript) of
        Inl m \<Rightarrow> Inl (''Failed to process transcript with AI: '' @ m)
      | Inr ts \<Rightarrow> Inr ts)"

section \<open>Video to audio (server/openai.ts)\<close>

text \<open>
  The scratch directory is a map from paths to file contents. What the conversion
  cannot decide itself is an argument: the two readings of \<^verbatim>\<open>Date.now()\<close>, whether
  \<^verbatim>\<open>writeFileSync\<close> and \<^verbatim>\<open>readFileSync\<close> succeed, and what FFmpeg does.
  FFmpeg either fails to start (the \<^verbatim>\<open>error\<close> event) or runs and closes with an exit
  code (\<open>None\<close> when a signal ended it), its stderr text, and the bytes it left at the
  output path, if it wrote any.
\<close>

type_synonym buffer = "nat list"

type_synonym files = "string \<Rightarrow> buffer option"

datatype ffmpeg =
  SpawnError string
| Close "nat option" string "buffer option"

definition unlinkSync :: "string \<Rightarrow> files \<Rightarrow> files" where
  "unlinkSync path fs = fs(path := None)"

definition tempVideoPath :: "nat \<Rightarrow> string \<Rightarrow> string" where
  "tempVideoPath now filename = ''/tmp/video_'' @ show_nat now @ ''_'' @ filename"

definition tempAudioPath :: "nat \<Rightarrow> string" where
  "tempAudioPath now = ''/tmp/audio_'' @ show_nat now @ ''.mp3''"

definition show_code :: "nat option \<Rightarrow> string" where
  "show_code code = (case code of None \<Rightarrow> ''null'' | Some n \<Rightarrow> show_nat n)"

definition extractAudioFromVideo ::
  "buffer \<Rightarrow> string \<Rightarrow> nat \<Rightarrow> nat \<Rightarrow> bool \<Rightarrow> ffmpeg \<Rightarrow> bool \<Rightarrow> files \<Rightarrow> (string + buffer) \<times> files" where
  "extractAudioFromVideo videoBuffer filename now1 now2 write_ok run_ffmpeg read_ok fs =
     (let video = tempVideoPath now1 filename;
          audio = tempAudioPath now2
      in if \<not> write_ok then (Inl ''Failed to write video file to disk'', fs)
         else
          (let fs1 = fs(video \<mapsto> videoBuffer)
           in case run_ffmpeg of
                SpawnError m \<Rightarrow>
                  (Inl (''FFmpeg execution error: '' @ m), unlinkSync audio (unlinkSync video fs1))
              | Close code stderr produced \<Rightarrow>
                  (let fs2 = (case produced of None \<Rightarrow> fs1 | Some b \<Rightarrow> fs1(audio \<mapsto> b));
                       fs3 = unlinkSync video fs2
                   in if code = Some 0 then
                        (case fs3 audio of
                           Some audioBuffer \<Rightarrow>
                             if read_ok then (Inr audioBuffer, unlinkSync audio fs3)
                             else (Inl ''Failed to read extracted audio file'', fs3)
                         | None \<Rightarrow> (Inl ''Audio file was not created by FFmpeg'', fs3))
                      else (Inl (''FFmpeg process failed with code '' @ show_code code
                                  @ ''. Error: '' @ stderr), fs3))))"

section \<open>The route handlers (server/routes.ts)\<close>

datatype response_body =
  Message string
| TaskArray "Task list"
| Extraction "utf16 option" string "Task list"
| TaskJson Task

type_synonym response = "nat \<times> response_body"

text \<open>
  \<^verbatim>\<open>taskData.description && taskData.assignee && taskData.deadline\<close>: the test of the
  \<^verbatim>\<open>if\<close> is the truthiness of the three values as the extraction passed them on.
\<close>

definition has_required_fields :: "ExtractedTask \<Rightarrow> bool" where
  "has_required_fields taskData =
     (truthy (ex_description taskData) \<and> truthy (ex_assignee taskData) \<and> truthy (ex_deadline taskData))"

text \<open>
  The loop that saves the extracted tasks, the same in both handlers. The validator
  \<^verbatim>\<open>insertTaskSchema.parse\<close> of @shared/schema is missing from the sources, so it is the
  argument \<open>parse\<close>: \<open>Inl\<close> the message of the error it throws, \<open>Inr\<close> the validated
  value. \<open>clock k\<close> is the time the \<open>k\<close>-th \<^verbatim>\<open>createTask\<close> of the request reads. An
  error leaves the loop with the tasks saved so far still in the store.
\<close>

fun save_tasks ::
  "(ExtractedTask \<Rightarrow> string + InsertTask) \<Rightarrow> (nat \<Rightarrow> int) \<Rightarrow> ExtractedTask list \<Rightarrow>
   Task list \<Rightarrow> MemStorage \<Rightarrow> (string + Task list) \<times> MemStorage" where
  "save_tasks parse clock [] savedTasks s = (Inr savedTasks, s)"
| "save_tasks parse clock (taskData # rest) savedTasks s =
     (if has_required_fields taskData then
        (case parse taskData of
           Inl e \<Rightarrow> (Inl e, s)
         | Inr validatedTask \<Rightarrow>
             (let (savedTask, s') = createTask validatedTask (clock (length savedTasks)) s
              in save_tasks parse clock rest (savedTasks @ [savedTask]) s'))
      else save_tasks parse clock rest savedTasks s)"

text \<open>The \<^verbatim>\<open>catch\<close> blocks choose the status from the error's message.\<close>

definition unavailable :: string where
  "unavailable = ''AI service is currently unavailable. Please check your API key and try again.''"

definition transcript_error :: "string \<Rightarrow> response" where
  "transcript_error m =
     (if includes_str m ''OpenAI'' \<or> includes_str m ''API'' then (502, Message unavailable)
      else if includes_str m ''parse'' then (400, Message ''Invalid transcript format'')
      else (500, Message m))"

definition audio_error :: "string \<Rightarrow> response" where
  "audio_error m =
     (if includes_str m ''OpenAI'' \<or> includes_str m ''API'' then (502, Message unavailable)
      else if includes_str m ''transcribe'' then
        (400, Message (''Failed to transcribe audio. Please ensure it'' @ [CHR 0x27]
                        @ ''s a valid audio file with clear speech.''))
      else (500, Message m))"

text \<open>
  POST /api/process-transcript. \<open>body\<close> is what \<^verbatim>\<open>transcriptProcessSchema.parse(req.body)\<close>
  comes to (the schema is missing from the sources): \<open>Inl\<close> the message of its error,
  \<open>Inr\<close> the transcript. The handler calls \<^verbatim>\<open>extractTasksFromTranscript\<close>, whose
  upstream service is the argument \<open>upstream\<close>.
\<close>

definition process_transcript ::
  "string + utf16 \<Rightarrow> (utf16 \<Rightarrow> completion) \<Rightarrow>
   (ExtractedTask \<Rightarrow> string + InsertTask) \<Rightarrow> (nat \<Rightarrow> int) \<Rightarrow> MemStorage \<Rightarrow> response \<times> MemStorage" where
  "process_transcript body upstream parse clock s =
     (case body of
        Inl e \<Rightarrow> (transcript_error e, s)
      | Inr transcript \<Rightarrow>
          if trim transcript = [] then ((400, Message ''Transcript cannot be empty''), s)
          else
           (case extractTasksFromTranscript upstream transcript of
              Inl e \<Rightarrow> (transcript_error e, s)
            | Inr extractedTasks \<Rightarrow>
               (case save_tasks parse clock extractedTasks [] s of
                  (Inl e, s') \<Rightarrow> (transcript_error e, s')
                | (Inr savedTasks, s') \<Rightarrow>
                    ((200, Extraction None
                        (''Successfully extracted '' @ show_nat (length savedTasks) @ '' tasks'')
                        savedTasks), s'))))"

text \<open>
  POST /api/process-audio. \<open>file\<close> is the upload (its buffer and original name), if any;
  \<open>transcribe\<close> is \<^verbatim>\<open>transcribeAudio\<close> as the handler sees it: \<open>Inl\<close> the message of
  the error it throws, \<open>Inr\<close> the transcript.
\<close>

definition process_audio ::
  "(buffer \<times> string) option \<Rightarrow> (buffer \<Rightarrow> string \<Rightarrow> string + utf16) \<Rightarrow>
   (utf16 \<Rightarrow> completion) \<Rightarrow>
   (ExtractedTask \<Rightarrow> string + InsertTask) \<Rightarrow> (nat \<Rightarrow> int) \<Rightarrow> MemStorage \<Rightarrow> response \<times> MemStorage" where
  "process_audio file transcribe upstream parse clock s =
     (case file of
        None \<Rightarrow> ((400, Message ''No audio file provided''), s)
      | Some (buf, originalname) \<Rightarrow>
         (case transcribe buf originalname of
            Inl e \<Rightarrow> (audio_error e, s)
          | Inr transcript \<Rightarrow>
              if trim transcript = [] then ((400, Message ''No speech detected in audio file''), s)
              else
               (case extractTasksFromTranscript upstream transcript of
                  Inl e \<Rightarrow> (audio_error e, s)
                | Inr extractedTasks \<Rightarrow>
                   (case save_tasks parse clock extractedTasks [] s of
                      (Inl e, s') \<Rightarrow> (audio_error e, s')
                    | (Inr savedTasks, s') \<Rightarrow>
                        ((200, Extraction (Some transcript)
                            (''Successfully extracted '' @ show_nat (length savedTasks)
                               @ '' tasks from audio'')
                            savedTasks), s')))))"

text \<open>PUT /api/tasks/:id and DELETE /api/tasks/:id, once \<^verbatim>\<open>parseInt\<close> has read the id
  (\<open>None\<close> when it is \<^verbatim>\<open>NaN\<close>). The PUT handler passes the request body on as it is.\<close>

definition put_task :: "int option \<Rightarrow> TaskUpdates \<Rightarrow> MemStorage \<Rightarrow> response \<times> MemStorage" where
  "put_task ident updates s =
     (case ident of
        None \<Rightarrow> ((400, Message ''Invalid task ID''), s)
      | Some i \<Rightarrow>
         (case updateTask i updates s of
            (None, s') \<Rightarrow> ((404, Message ''Task not found''), s')
          | (Some updatedTask, s') \<Rightarrow> ((200, TaskJson updatedTask), s')))"

definition delete_task :: "int option \<Rightarrow> MemStorage \<Rightarrow> response \<times> MemStorage" where
  "delete_task ident s =
     (case ident of
        None \<Rightarrow> ((400, Message ''Invalid task ID''), s)
      | Some i \<Rightarrow>
         (case deleteTask i s of
            (False, s') \<Rightarrow> ((404, Message ''Task not found''), s')
          | (True, s') \<Rightarrow> ((200, Message ''Task deleted successfully''), s')))"

section \<open>CSV export (client/src/pages/task-converter.tsx)\<close>

definition quoted :: "string \<Rightarrow> string" where
  "quoted field = [CHR 0x22] @ field @ [CHR 0x22]"

definition csv_row :: "Task \<Rightarrow> string" where
  "csv_row task =
     join '','' [quoted (description task), quoted (assignee task), quoted (deadline task), priority task]"

definition headers :: "string list" where
  "headers = [''Task'', ''Assigned To'', ''Due Date/Time'', ''Priority'']"

definition csvContent :: "Task list \<Rightarrow> string" where
  "csvContent ts = join [CHR 0x0A] (join '','' headers # map csv_row ts)"

text \<open>\<^verbatim>\<open>exportToCSV\<close> writes no file when there are no tasks (\<open>None\<close>); otherwise the
  downloaded file holds \<open>csvContent\<close>.\<close>

definition exportToCSV :: "Task list \<Rightarrow> string option" where
  "exportToCSV ts = (if length ts = 0 then None else Some (csvContent ts))"

section \<open>Vocabulary of the properties\<close>

subsection \<open>The current records\<close>





subsection \<open>Times\<close>



subsection \<open>Saved tasks\<close>

text \<open>A saved task carries the fields of the value the validator returned for a candidate.\<close>

definition saved_from :: "(ExtractedTask \<Rightarrow> string + InsertTask) \<Rightarrow> Task \<Rightarrow> ExtractedTask \<Rightarrow> bool" where
  "saved_from parse t taskData =
     (case parse taskData of
        Inl e \<Rightarrow> False
      | Inr v \<Rightarrow> description t = ins_description v \<and> assignee t = ins_assignee v
                 \<and> deadline t = ins_deadline v
                 \<and> priority t = (case ins_priority v of
                                   None \<Rightarrow> ''P3'' | Some p \<Rightarrow> if p = [] then ''P3'' else p))"

text \<open>The validator does not throw on a candidate.\<close>

definition accepts :: "(ExtractedTask \<Rightarrow> string + InsertTask) \<Rightarrow> ExtractedTask \<Rightarrow> bool" where
  "accepts parse taskData = (case parse taskData of Inl e \<Rightarrow> False | Inr v \<Rightarrow> True)"

text \<open>The store after the tasks \<open>ts\<close> were set one after the other, each under its id.\<close>

definition store_all :: "Task list \<Rightarrow> MemStorage \<Rightarrow> MemStorage" where
  "store_all ts s = \<lparr>tasks = fold (\<lambda>t. Map_set (task_id t) t) ts (tasks s),
                      currentTaskId = currentTaskId s + int (length ts)\<rparr>"

definition failure_prefix :: string where
  "failure_prefix = ''Failed to process transcript with AI: ''"

section \<open>Sample data\<close>

definition sample_insert :: InsertTask where
  "sample_insert = \<lparr>ins_description = ''take the landing page'', ins_assignee = ''Aman'',
     ins_deadline = ''by 10pm tomorrow'', ins_priority = None\<rparr>"

definition no_updates :: TaskUpdates where
  "no_updates = \<lparr>upd_id = None, upd_description = None, upd_assignee = None,
     upd_deadline = None, upd_priority = None, upd_createdAt = None\<rparr>"

definition one_task :: MemStorage where
  "one_task = snd (createTask sample_insert 1000 new_MemStorage)"

definition sample_transcript :: utf16 where
  "sample_transcript = ascii ''Aman, take the landing page by 10pm tomorrow. Rajiv, take care of client follow-up by Wednesday.''"

definition sample_item :: json where
  "sample_item = JObject [(''description'', JString ''take the landing page''),
     (''assignee'', JString ''Aman''), (''deadline'', JString ''by 10pm tomorrow'')]"

text \<open>Three candidates as the upstream service sends them; the second has no assignee.\<close>

definition sample_payload :: json where
  "sample_payload = JObject [(''tasks'', JArray
     [sample_item,
      JObject [(''description'', JString ''review the marketing deck''),
               (''assignee'', JString []), (''deadline'', JString ''tonight'')],
      JObject [(''description'', JString ''take care of client follow-up''),
               (''assignee'', JString ''Rajiv''), (''deadline'', JString ''by Wednesday''),
               (''priority'', JString ''P2'')]])]"

text \<open>The candidates the extraction makes of them.\<close>

definition sample_candidates :: "ExtractedTask list" where
  "sample_candidates =
     [\<lparr>ex_description = JString ''take the landing page'', ex_assignee = JString ''Aman'',
       ex_deadline = JString ''by 10pm tomorrow'', ex_priority = JString ''P3''\<rparr>,
      \<lparr>ex_description = JString ''review the marketing deck'', ex_assignee = JString [],
       ex_deadline = JString ''tonight'', ex_priority = JString ''P3''\<rparr>,
      \<lparr>ex_description = JString ''take care of client follow-up'', ex_assignee = JString ''Rajiv'',
       ex_deadline = JString ''by Wednesday'', ex_priority = JString ''P2''\<rparr>]"

text \<open>One candidate whose description is the number 5.\<close>

definition number_payload :: json where
  "number_payload = JObject [(''tasks'', JArray
     [JObject [(''description'', JNumber 5), (''assignee'', JString ''Aman''),
               (''deadline'', JString ''Friday'')]])]"

text \<open>A validator that throws unless the four fields are strings, and one that turns
  every field into a string.\<close>

fun as_string :: "json \<Rightarrow> string option" where
  "as_string (JString s) = Some s"
| "as_string other = None"

definition strings_only :: "ExtractedTask \<Rightarrow> string + InsertTask" where
  "strings_only taskData =
     (case (as_string (ex_description taskData), as_string (ex_assignee taskData),
            as_string (ex_deadline taskData), as_string (ex_priority taskData)) of
        (Some d, Some a, Some dl, Some p) \<Rightarrow>
          Inr \<lparr>ins_description = d, ins_assignee = a, ins_deadline = dl, ins_priority = Some p\<rparr>
      | other \<Rightarrow> Inl ''Expected string, received number'')"

fun to_text :: "json \<Rightarrow> string" where
  "to_text (JString s) = s"
| "to_text (JNumber n) = (if n < 0 then ''-'' else []) @ show_nat (nat \<bar>n\<bar>)"
| "to_text other = ''[object]''"

definition coercing :: "ExtractedTask \<Rightarrow> string + InsertTask" where
  "coercing taskData =
     Inr \<lparr>ins_description = to_text (ex_description taskData),
          ins_assignee = to_text (ex_assignee taskData),
          ins_deadline = to_text (ex_deadline taskData),
          ins_priority = Some (to_text (ex_priority taskData))\<rparr>"

text \<open>Two tasks that differ in description and assignee: a quote, a comma and a quote
  stand inside the description of the first and inside the assignee of the second.\<close>

definition task_a :: Task where
  "task_a = \<lparr>task_id = 1, description = ''x'' @ [CHR 0x22] @ '','' @ [CHR 0x22] @ ''y'',
     assignee = ''z'', deadline = ''Friday'', priority = ''P3'', createdAt = 0\<rparr>"

definition task_b :: Task where
  "task_b = \<lparr>task_id = 1, description = ''x'',
     assignee = ''y'' @ [CHR 0x22] @ '','' @ [CHR 0x22] @ ''z'',
     deadline = ''Friday'', priority = ''P3'', createdAt = 0\<rparr>"

section \<open>Lemmas on the Map and the sort\<close>

lemma Map_get_set: "Map_get (Map_set k v m) k' = (if k' = k then Some v else Map_get m k')"
  by (induction m) auto

lemma Map_get_set_same: "Map_get (Map_set k v m) k = Some v"
  by (simp add: Map_get_set)

lemma Map_get_set_other: "k' \<noteq> k \<Longrightarrow> Map_get (Map_set k v m) k' = Map_get m k'"
  by (simp add: Map_get_set)


lemma Map_has_get: "Map_has m k = (Map_get m k \<noteq> None)"
  by (induction m) auto

lemma Map_delete_absent: "Map_get m k = None \<Longrightarrow> Map_delete k m = m"
  by (induction m) (auto split: if_splits)





lemma Map_set_in_values: "v \<in> set (Map_values (Map_set k v m))"
proof (induction m)
  case Nil
  then show ?case by (simp add: Map_values_def)
next
  case (Cons p m)
  then show ?case by (cases p) (simp add: Map_values_def)
qed

lemma list_all_Map_set:
  "P v \<Longrightarrow> list_all (\<lambda>entry. P (snd entry)) m \<Longrightarrow> list_all (\<lambda>entry. P (snd entry)) (Map_set k v m)"
  by (induction m) auto

lemma list_all_Map_delete:
  "list_all (\<lambda>entry. P (snd entry)) m \<Longrightarrow> list_all (\<lambda>entry. P (snd entry)) (Map_delete k m)"
  by (induction m) auto

lemma list_all_Map_get:
  "list_all (\<lambda>entry. P (snd entry)) m \<Longrightarrow> Map_get m k = Some v \<Longrightarrow> P v"
  by (induction m) (auto split: if_splits)

lemma mset_sort_insert: "mset (sort_insert cmp x ys) = add_mset x (mset ys)"
  by (induction ys) auto

lemma mset_Array_sort: "mset (Array_sort cmp xs) = mset xs"
  unfolding Array_sort_def by (induction xs) (auto simp: mset_sort_insert)


lemma set_Array_sort: "set (Array_sort cmp xs) = set xs"
  using mset_Array_sort[of cmp xs] by (metis set_mset_mset)




section \<open>The task store\<close>

subsection \<open>An invariant of the records\<close>

text \<open>A property of records that creation establishes and updates keep holds of every
  record in the store after a step.\<close>

lemma step_keeps:
  assumes inv: "list_all (\<lambda>entry. P (snd entry)) (tasks s)"
    and create: "\<And>insertTask now. a = CreateTask insertTask now \<Longrightarrow> P (fst (createTask insertTask now s))"
    and update: "\<And>ident updates t. a = UpdateTask ident updates \<Longrightarrow> P t \<Longrightarrow> P (spread t updates)"
  shows "list_all (\<lambda>entry. P (snd entry)) (tasks (snd (step a s)))"
proof (cases a)
  case (CreateTask insertTask now)
  then show ?thesis using inv create[OF CreateTask]
    by (simp add: createTask_def Let_def list_all_Map_set)
next
  case (UpdateTask i u)
  show ?thesis
  proof (cases "Map_get (tasks s) i")
    case None
    then show ?thesis using inv UpdateTask by (simp add: updateTask_def)
  next
    case (Some t)
    have "P t"
      using inv Some by (rule list_all_Map_get)
    then have "P (spread t u)"
      using update[OF UpdateTask] by simp
    then show ?thesis using inv Some UpdateTask
      by (simp add: updateTask_def list_all_Map_set Let_def)
  qed
next
  case (DeleteTask i)
  then show ?thesis using inv
    by (simp add: deleteTask_def list_all_Map_delete)
next
  case ClearAllTasks
  then show ?thesis by (simp add: clearAllTasks_def)
next
  case GetAllTasks
  then show ?thesis using inv by simp
qed

subsection \<open>Ids\<close>

lemma upto_cons: "c # [c + 1 .. c + int n] = [c .. c + int n]"
  using upto_rec1[of c "c + int n"] by simp

text \<open>From any state, the ids issued are the counter's values in order.\<close>

lemma run_issued:
  "issued_ids (fst (run ops s)) =
     [currentTaskId s .. currentTaskId s + int (length (filter is_create ops)) - 1]"
proof (induction ops arbitrary: s)
  case Nil
  then show ?case by simp
next
  case (Cons a ops)
  show ?case
  proof (cases a)
    case (CreateTask insertTask now)
    have "issued_ids (fst (run (a # ops) s))
            = currentTaskId s # issued_ids (fst (run ops (snd (createTask insertTask now s))))"
      using CreateTask by (simp add: split_beta) (simp add: createTask_def Let_def)
    also have "\<dots> = currentTaskId s #
        [currentTaskId s + 1 .. currentTaskId s + int (length (filter is_create ops))]"
      using Cons[of "snd (createTask insertTask now s)"] by (simp add: createTask_def Let_def)
    also have "\<dots> = [currentTaskId s .. currentTaskId s + int (length (filter is_create ops))]"
      by (rule upto_cons)
    finally show ?thesis using CreateTask by simp
  next
    case (UpdateTask ident updates)
    then show ?thesis using Cons[of "snd (updateTask ident updates s)"]
      by (simp add: split_beta) (simp add: updateTask_def Let_def split: option.splits)
  next
    case (DeleteTask ident)
    then show ?thesis using Cons[of "snd (deleteTask ident s)"]
      by (simp add: split_beta) (simp add: deleteTask_def)
  next
    case ClearAllTasks
    then show ?thesis using Cons[of "clearAllTasks s"]
      by (simp add: split_beta) (simp add: clearAllTasks_def)
  next
    case GetAllTasks
    then show ?thesis using Cons[of s] by (simp add: split_beta)
  qed
qed

text \<open>
  Claim C1. Whatever operations a fresh store runs, in whatever order, the ids that
  \<^verbatim>\<open>createTask\<close> returns are 1, 2, 3, ... in the order of the calls: the n-th call
  returns n, whether or not \<^verbatim>\<open>deleteTask\<close> or \<^verbatim>\<open>clearAllTasks\<close> removed earlier
  records in between. So every id differs from all ids issued before, and none is
  ever issued again.
\<close>

theorem createTask_ids_monotonic:
  "issued_ids (fst (run ops new_MemStorage)) = [1 .. int (length (filter is_create ops))]
   \<and> distinct (issued_ids (fst (run ops new_MemStorage)))"
  using run_issued[of ops new_MemStorage] by (simp add: new_MemStorage_def)

subsection \<open>Listing\<close>












subsection \<open>Updates\<close>

text \<open>
  Claim C8. When no record stands under the id, \<^verbatim>\<open>updateTask\<close> returns the not-found
  signal and the store it leaves is the store it found: the same number of records,
  the same listing.
\<close>

theorem updateTask_absent_id:
  "Map_get (tasks s) ident = None \<Longrightarrow>
   updateTask ident updates s = (None, s)
   \<and> length (tasks (snd (updateTask ident updates s))) = length (tasks s)
   \<and> getAllTasks (snd (updateTask ident updates s)) = getAllTasks s"
  by (simp add: updateTask_def)

theorem updateTask_absent_id_witness:
  "Map_get (tasks one_task) 7 = None
   \<and> updateTask 7 (no_updates\<lparr>upd_priority := Some ''P1''\<rparr>) one_task = (None, one_task)
   \<and> length (tasks (snd (updateTask 7 (no_updates\<lparr>upd_priority := Some ''P1''\<rparr>) one_task))) = 1"
proof -
  have h: "Map_get (tasks one_task) 7 = None"
    by (simp add: one_task_def createTask_def new_MemStorage_def Let_def)
  have n: "length (tasks one_task) = 1"
    by (simp add: one_task_def createTask_def new_MemStorage_def Let_def)
  from h n updateTask_absent_id[OF h, of "no_updates\<lparr>upd_priority := Some ''P1''\<rparr>"]
  show ?thesis by simp
qed

text \<open>
  Claim C10. Let a record stand under id \<open>i\<close> and let the update carry an id \<open>j\<close> other
  than \<open>i\<close>. Then \<^verbatim>\<open>updateTask\<close> (and the PUT handler, which passes the body on)
  returns a record whose id is \<open>j\<close>; that record stands in the store under \<open>i\<close> and is
  listed by \<^verbatim>\<open>getAllTasks\<close>; and when no record stands under \<open>j\<close>, deleting or
  updating \<open>j\<close> reports not-found (404 from the handlers) and changes nothing.
\<close>

theorem updateTask_id_override:
  assumes "Map_get (tasks s) i = Some t" and "upd_id updates = Some j" and "j \<noteq> i"
  shows "\<exists>t' s'. updateTask i updates s = (Some t', s')
          \<and> put_task (Some i) updates s = ((200, TaskJson t'), s')
          \<and> task_id t' = j
          \<and> Map_get (tasks s') i = Some t'
          \<and> t' \<in> set (getAllTasks s')
          \<and> (Map_get (tasks s') j = None \<longrightarrow>
                deleteTask j s' = (False, s') \<and> updateTask j updates' s' = (None, s')
              \<and> delete_task (Some j) s' = ((404, Message ''Task not found''), s')
              \<and> put_task (Some j) updates' s' = ((404, Message ''Task not found''), s'))"
proof -
  define t' where "t' = spread t updates"
  define s' where "s' = s\<lparr>tasks := Map_set i t' (tasks s)\<rparr>"
  have upd: "updateTask i updates s = (Some t', s')"
    using assms(1) by (simp add: updateTask_def t'_def s'_def Let_def)
  then have put: "put_task (Some i) updates s = ((200, TaskJson t'), s')"
    by (simp add: put_task_def)
  have ident: "task_id t' = j"
    using assms(2) by (simp add: t'_def spread_def)
  have keyed: "Map_get (tasks s') i = Some t'"
    by (simp add: s'_def Map_get_set_same)
  have listed: "t' \<in> set (getAllTasks s')"
    by (simp add: getAllTasks_def set_Array_sort s'_def Map_set_in_values)
  have del: "deleteTask j s' = (False, s')" if "Map_get (tasks s') j = None"
    using that by (simp add: deleteTask_def Map_has_get Map_delete_absent)
  have upd2: "updateTask j updates' s' = (None, s')" if "Map_get (tasks s') j = None"
    using that by (simp add: updateTask_def)
  have del_http: "delete_task (Some j) s' = ((404, Message ''Task not found''), s')"
    if "Map_get (tasks s') j = None"
    using del[OF that] by (simp add: delete_task_def)
  have put_http: "put_task (Some j) updates' s' = ((404, Message ''Task not found''), s')"
    if "Map_get (tasks s') j = None"
    using upd2[OF that] by (simp add: put_task_def)
  show ?thesis
    using upd put ident keyed listed del upd2 del_http put_http
    by (intro exI[of _ t'] exI[of _ s']) simp
qed

theorem updateTask_id_override_witness:
  "Map_get (tasks one_task) 1 \<noteq> None
   \<and> (\<exists>t' s'. updateTask 1 (no_updates\<lparr>upd_id := Some 42\<rparr>) one_task = (Some t', s')
          \<and> task_id t' = 42
          \<and> Map_get (tasks s') 1 = Some t'
          \<and> t' \<in> set (getAllTasks s')
          \<and> Map_get (tasks s') 42 = None
          \<and> deleteTask 42 s' = (False, s')
          \<and> updateTask 42 no_updates s' = (None, s'))"
proof -
  obtain t where h1: "Map_get (tasks one_task) 1 = Some t"
    by (simp add: one_task_def createTask_def new_MemStorage_def Let_def)
  have h2: "upd_id (no_updates\<lparr>upd_id := Some 42\<rparr>) = Some 42"
    by simp
  have h3: "(42::int) \<noteq> 1"
    by simp
  obtain t' s' where r: "updateTask 1 (no_updates\<lparr>upd_id := Some 42\<rparr>) one_task = (Some t', s')"
      "task_id t' = 42" "Map_get (tasks s') 1 = Some t'" "t' \<in> set (getAllTasks s')"
      "Map_get (tasks s') 42 = None \<longrightarrow>
         deleteTask 42 s' = (False, s') \<and> updateTask 42 no_updates s' = (None, s')"
    using updateTask_id_override[OF h1 h2 h3, of no_updates] by auto
  have h4: "Map_get (tasks s') 42 = None"
    using r(1) by (auto simp: updateTask_def one_task_def createTask_def new_MemStorage_def Let_def)
  from h1 r h4 show ?thesis by auto
qed

subsection \<open>Priorities\<close>

lemma valid_priority_or_P3:
  "(case p of None \<Rightarrow> True | Some v \<Rightarrow> v = [] \<or> valid_priority v) \<Longrightarrow>
   valid_priority (priority_or_P3 p)"
  by (auto simp: priority_or_P3_def valid_priority_def split: option.splits)

lemma run_priorities_valid:
  "list_all supplies_valid_priority ops \<Longrightarrow> all_priorities_valid s \<Longrightarrow>
   all_priorities_valid (snd (run ops s))"
proof (induction ops arbitrary: s)
  case Nil
  then show ?case by simp
next
  case (Cons a ops)
  have "list_all (\<lambda>entry. valid_priority (priority (snd entry))) (tasks (snd (step a s)))"
  proof (rule step_keeps)
    show "list_all (\<lambda>entry. valid_priority (priority (snd entry))) (tasks s)"
      using Cons.prems(2) by (simp add: all_priorities_valid_def)
  next
    fix insertTask now assume "a = CreateTask insertTask now"
    then show "valid_priority (priority (fst (createTask insertTask now s)))"
      using Cons.prems(1) by (simp add: createTask_def Let_def valid_priority_or_P3)
  next
    fix ident updates and t :: Task
    assume "a = UpdateTask ident updates" and "valid_priority (priority t)"
    then show "valid_priority (priority (spread t updates))"
      using Cons.prems(1) by (simp add: spread_def split: option.splits)
  qed
  then have "all_priorities_valid (snd (step a s))"
    by (simp add: all_priorities_valid_def)
  then have "all_priorities_valid (snd (run ops (snd (step a s))))"
    using Cons by simp
  then show ?case by (simp add: split_beta)
qed

text \<open>
  Claim C4, as the code has it. The store checks no priority.
  \<^item> \<^verbatim>\<open>createTask\<close> stores, under the id it issues, the record it returns, and that
    record has the priority it was given, or P3 where none or the empty string was
    given.
  \<^item> \<^verbatim>\<open>updateTask\<close> on a present id stores, under that id, the record it returns, and
    that record has the priority the update carries, whatever it is, or the old one
    where the update carries none.
  \<^item> So the stored priorities are all among P1, P2, P3 when the operations supplied no
    other: every \<^verbatim>\<open>createTask\<close> was given none, the empty string or one of the three,
    and every \<^verbatim>\<open>updateTask\<close> none or one of the three.
\<close>

theorem priorities_valid_if_supplied_valid:
  "(list_all supplies_valid_priority ops \<longrightarrow> all_priorities_valid (snd (run ops new_MemStorage)))
   \<and> priority (fst (createTask insertTask now s)) =
       (case ins_priority insertTask of None \<Rightarrow> ''P3'' | Some p \<Rightarrow> if p = [] then ''P3'' else p)
   \<and> Map_get (tasks (snd (createTask insertTask now s))) (currentTaskId s)
       = Some (fst (createTask insertTask now s))
   \<and> (Map_get (tasks s) i = Some t \<longrightarrow>
        (\<exists>t'. fst (updateTask i updates s) = Some t'
            \<and> priority t' = (case upd_priority updates of None \<Rightarrow> priority t | Some p \<Rightarrow> p)
            \<and> Map_get (tasks (snd (updateTask i updates s))) i = Some t'))"
proof (intro conjI impI)
  show "all_priorities_valid (snd (run ops new_MemStorage))"
    if "list_all supplies_valid_priority ops"
    using that by (rule run_priorities_valid) (simp add: all_priorities_valid_def new_MemStorage_def)
  show "priority (fst (createTask insertTask now s)) =
       (case ins_priority insertTask of None \<Rightarrow> ''P3'' | Some p \<Rightarrow> if p = [] then ''P3'' else p)"
    by (simp add: createTask_def Let_def priority_or_P3_def)
  show "Map_get (tasks (snd (createTask insertTask now s))) (currentTaskId s)
       = Some (fst (createTask insertTask now s))"
    by (simp add: createTask_def Let_def Map_get_set_same)
  show "\<exists>t'. fst (updateTask i updates s) = Some t'
            \<and> priority t' = (case upd_priority updates of None \<Rightarrow> priority t | Some p \<Rightarrow> p)
            \<and> Map_get (tasks (snd (updateTask i updates s))) i = Some t'"
    if "Map_get (tasks s) i = Some t"
    using that by (simp add: updateTask_def Let_def spread_def Map_get_set_same)
qed

theorem priorities_valid_if_supplied_valid_witness:
  "list_all supplies_valid_priority
     [CreateTask sample_insert 1000, UpdateTask 1 (no_updates\<lparr>upd_priority := Some ''P1''\<rparr>)]
   \<and> all_priorities_valid (snd (run
     [CreateTask sample_insert 1000, UpdateTask 1 (no_updates\<lparr>upd_priority := Some ''P1''\<rparr>)]
     new_MemStorage))
   \<and> Map_get (tasks one_task) 1 \<noteq> None
   \<and> (\<exists>t'. fst (updateTask 1 (no_updates\<lparr>upd_priority := Some ''urgent''\<rparr>) one_task) = Some t'
          \<and> priority t' = ''urgent''
          \<and> Map_get (tasks (snd (updateTask 1 (no_updates\<lparr>upd_priority := Some ''urgent''\<rparr>) one_task))) 1
              = Some t')"
proof -
  have h: "list_all supplies_valid_priority
     [CreateTask sample_insert 1000, UpdateTask 1 (no_updates\<lparr>upd_priority := Some ''P1''\<rparr>)]"
    by (simp add: sample_insert_def no_updates_def valid_priority_def)
  obtain t where g: "Map_get (tasks one_task) 1 = Some t"
    by (simp add: one_task_def createTask_def new_MemStorage_def Let_def)
  note inst = priorities_valid_if_supplied_valid[of
      "[CreateTask sample_insert 1000, UpdateTask 1 (no_updates\<lparr>upd_priority := Some ''P1''\<rparr>)]"
      sample_insert 1000 one_task 1 t
      "no_updates\<lparr>upd_priority := Some ''urgent''\<rparr>"]
  have a: "all_priorities_valid (snd (run
     [CreateTask sample_insert 1000, UpdateTask 1 (no_updates\<lparr>upd_priority := Some ''P1''\<rparr>)]
     new_MemStorage))"
    using inst h by blast
  have b: "\<exists>t'. fst (updateTask 1 (no_updates\<lparr>upd_priority := Some ''urgent''\<rparr>) one_task) = Some t'
          \<and> priority t' = ''urgent''
          \<and> Map_get (tasks (snd (updateTask 1 (no_updates\<lparr>upd_priority := Some ''urgent''\<rparr>) one_task))) 1
              = Some t'"
    using inst g by simp
  from h a g b show ?thesis by simp
qed

text \<open>
  Claim C4 as stated fails: a task is created with the default priority, and an update
  through the store (what PUT /api/tasks/1 with the body \<^verbatim>\<open>{"priority": "urgent"}\<close>
  does) leaves a record whose priority is none of P1, P2, P3.
\<close>

theorem priority_not_normalized_counterexample:
  "\<not> all_priorities_valid (snd (run
     [CreateTask sample_insert 1000, UpdateTask 1 (no_updates\<lparr>upd_priority := Some ''urgent''\<rparr>)]
     new_MemStorage))"
  by (simp add: all_priorities_valid_def new_MemStorage_def createTask_def updateTask_def Let_def
      spread_def sample_insert_def no_updates_def valid_priority_def priority_or_P3_def)

section \<open>The route handlers\<close>

subsection \<open>Saving the extracted tasks\<close>

lemma has_required_fields_eq:
  "(\<lambda>c. truthy (ex_description c) \<and> truthy (ex_assignee c) \<and> truthy (ex_deadline c))
     = has_required_fields"
  by (simp add: fun_eq_iff has_required_fields_def)

text \<open>
  Whatever the validator does, the loop changes the store by tasks saved from the first
  candidates that pass the check, one for each, in order, under the ids the counter
  gives. When the validator throws on none of the candidates that pass the check, the
  loop ends with one task for each of them.
\<close>

lemma save_tasks_effect:
  "\<exists>new. snd (save_tasks parse clock cands saved s) = store_all new s
         \<and> list_all2 (saved_from parse) new (take (length new) (filter has_required_fields cands))
         \<and> map task_id new = [currentTaskId s .. currentTaskId s + int (length new) - 1]
         \<and> (list_all (accepts parse) (filter has_required_fields cands) \<longrightarrow>
              fst (save_tasks parse clock cands saved s) = Inr (saved @ new)
            \<and> length new = length (filter has_required_fields cands))"
proof (induction cands arbitrary: saved s)
  case Nil
  then show ?case by (simp add: store_all_def)
next
  case (Cons c cands)
  show ?case
  proof (cases "has_required_fields c")
    case False
    then show ?thesis using Cons[of saved s] by simp
  next
    case True
    show ?thesis
    proof (cases "parse c")
      case (Inl e)
      then have "\<not> accepts parse c" by (simp add: accepts_def)
      then show ?thesis using True Inl
        by (intro exI[of _ "[]"]) (simp add: store_all_def)
    next
      case (Inr v)
      obtain t s1 where c1: "createTask v (clock (length saved)) s = (t, s1)"
        by (cases "createTask v (clock (length saved)) s")
      have t: "saved_from parse t c" and ident: "task_id t = currentTaskId s"
        and cnt: "currentTaskId s1 = currentTaskId s + 1"
        using c1 Inr by (auto simp: saved_from_def createTask_def Let_def priority_or_P3_def)
      from Cons[of "saved @ [t]" s1]
      obtain new where new: "snd (save_tasks parse clock cands (saved @ [t]) s1) = store_all new s1"
        and rel: "list_all2 (saved_from parse) new
                    (take (length new) (filter has_required_fields cands))"
        and ids: "map task_id new = [currentTaskId s1 .. currentTaskId s1 + int (length new) - 1]"
        and ok: "list_all (accepts parse) (filter has_required_fields cands) \<longrightarrow>
              fst (save_tasks parse clock cands (saved @ [t]) s1) = Inr ((saved @ [t]) @ new)
            \<and> length new = length (filter has_required_fields cands)"
        by blast
      have s1: "store_all new s1 = store_all (t # new) s"
        using c1 by (auto simp: createTask_def Let_def store_all_def)
      have ids': "map task_id (t # new)
                    = [currentTaskId s .. currentTaskId s + int (length (t # new)) - 1]"
        using ids ident cnt upto_cons[of "currentTaskId s" "length new"]
        by (simp add: add.commute add.left_commute)
      have acc: "accepts parse c"
        using Inr by (simp add: accepts_def)
      show ?thesis
        using True Inr c1 new rel t s1 ids' ok acc
        by (intro exI[of _ "t # new"]) simp
    qed
  qed
qed

lemma fold_Map_set_other:
  "k \<notin> task_id ` set ts \<Longrightarrow>
   Map_get (fold (\<lambda>t. Map_set (task_id t) t) ts m) k = Map_get m k"
  by (induction ts arbitrary: m) (simp_all add: Map_get_set)

lemma fold_Map_set_member:
  "distinct (map task_id ts) \<Longrightarrow> t \<in> set ts \<Longrightarrow>
   Map_get (fold (\<lambda>t. Map_set (task_id t) t) ts m) (task_id t) = Some t"
proof (induction ts arbitrary: m)
  case Nil
  then show ?case by simp
next
  case (Cons a ts)
  show ?case
  proof (cases "t = a")
    case True
    then show ?thesis using Cons.prems
      by (simp add: fold_Map_set_other Map_get_set)
  next
    case False
    then show ?thesis using Cons by simp
  qed
qed

text \<open>
  Claim C3, as the code has it. Both handlers run the same loop over the candidates the
  extraction returned. The check of the loop is the truthiness of description, assignee
  and deadline: a string passes when it is not empty, and a value that is no string may
  pass too. Let \<open>kept\<close> be the candidates that pass.
  \<^item> Whatever the validator \<^verbatim>\<open>insertTaskSchema.parse\<close> (the argument \<open>parse\<close>) does, the
    saved tasks come one to one, in order, from the first candidates of \<open>kept\<close>; they
    have the next ids of the counter; afterwards each stands in the store under its id,
    and every other key holds what it held before. So a candidate that fails the check
    never reaches the store.
  \<^item> When the validator throws on no candidate of \<open>kept\<close>, one task is saved for each of
    them, and the handler answers 200 with the saved tasks and their number in the
    message: the dropped candidates raise no error.
\<close>

theorem invalid_candidates_dropped:
  assumes "trim transcript \<noteq> []"
    and "extractTasksFromTranscript upstream transcript = Inr cands"
  shows "\<exists>kept savedTasks s'.
           kept = filter (\<lambda>c. truthy (ex_description c) \<and> truthy (ex_assignee c)
                              \<and> truthy (ex_deadline c)) cands
         \<and> snd (process_transcript (Inr transcript) upstream parse clock s) = s'
         \<and> (transcribe buf originalname = Inr transcript \<longrightarrow>
              snd (process_audio (Some (buf, originalname)) transcribe upstream parse clock s) = s')
         \<and> list_all2 (saved_from parse) savedTasks (take (length savedTasks) kept)
         \<and> map task_id savedTasks
             = [currentTaskId s .. currentTaskId s + int (length savedTasks) - 1]
         \<and> currentTaskId s' = currentTaskId s + int (length savedTasks)
         \<and> list_all (\<lambda>t. Map_get (tasks s') (task_id t) = Some t) savedTasks
         \<and> (\<forall>k. k \<notin> set (map task_id savedTasks) \<longrightarrow> Map_get (tasks s') k = Map_get (tasks s) k)
         \<and> (list_all (accepts parse) kept \<longrightarrow>
              length savedTasks = length kept
            \<and> fst (process_transcript (Inr transcript) upstream parse clock s) =
                (200, Extraction None
                   (''Successfully extracted '' @ show_nat (length kept) @ '' tasks'') savedTasks)
            \<and> (transcribe buf originalname = Inr transcript \<longrightarrow>
                fst (process_audio (Some (buf, originalname)) transcribe upstream parse clock s) =
                  (200, Extraction (Some transcript)
                     (''Successfully extracted '' @ show_nat (length kept) @ '' tasks from audio'')
                     savedTasks)))"
proof -
  from save_tasks_effect[of parse clock cands "[]" s]
  obtain new where new: "snd (save_tasks parse clock cands [] s) = store_all new s"
    and rel: "list_all2 (saved_from parse) new
                (take (length new) (filter has_required_fields cands))"
    and ids: "map task_id new = [currentTaskId s .. currentTaskId s + int (length new) - 1]"
    and ok: "list_all (accepts parse) (filter has_required_fields cands) \<longrightarrow>
              fst (save_tasks parse clock cands [] s) = Inr new
            \<and> length new = length (filter has_required_fields cands)"
    by auto
  have dist: "distinct (map task_id new)"
    by (simp add: ids)
  have stored: "list_all (\<lambda>t. Map_get (tasks (store_all new s)) (task_id t) = Some t) new"
    using dist by (simp add: list_all_iff store_all_def fold_Map_set_member)
  have other: "Map_get (tasks (store_all new s)) k = Map_get (tasks s) k"
    if "k \<notin> set (map task_id new)" for k
    using that by (simp add: store_all_def fold_Map_set_other)
  have pt: "snd (process_transcript (Inr transcript) upstream parse clock s) = store_all new s"
    using new assms
    by (cases "save_tasks parse clock cands [] s")
      (simp add: process_transcript_def split: sum.splits)
  have pa: "snd (process_audio (Some (buf, originalname)) transcribe upstream parse clock s)
              = store_all new s"
    if "transcribe buf originalname = Inr transcript"
    using new assms that
    by (cases "save_tasks parse clock cands [] s")
      (simp add: process_audio_def split: sum.splits)
  have fpt: "fst (process_transcript (Inr transcript) upstream parse clock s) =
                (200, Extraction None
                   (''Successfully extracted ''
                      @ show_nat (length (filter has_required_fields cands)) @ '' tasks'') new)"
    if "list_all (accepts parse) (filter has_required_fields cands)"
    using ok that assms
    by (cases "save_tasks parse clock cands [] s") (simp add: process_transcript_def)
  have fpa: "fst (process_audio (Some (buf, originalname)) transcribe upstream parse clock s) =
                  (200, Extraction (Some transcript)
                     (''Successfully extracted ''
                        @ show_nat (length (filter has_required_fields cands))
                        @ '' tasks from audio'') new)"
    if "list_all (accepts parse) (filter has_required_fields cands)"
      and "transcribe buf originalname = Inr transcript"
    using ok that assms
    by (cases "save_tasks parse clock cands [] s") (simp add: process_audio_def)
  show ?thesis
    using rel ids stored other pt pa fpt fpa ok
    by (intro exI[of _ "filter has_required_fields cands"] exI[of _ new]
        exI[of _ "store_all new s"])
      (simp add: has_required_fields_eq store_all_def)
qed

theorem invalid_candidates_dropped_witness:
  "trim sample_transcript \<noteq> []
   \<and> extractTasksFromTranscript (\<lambda>t. Parsed sample_payload) sample_transcript
       = Inr sample_candidates
   \<and> map has_required_fields sample_candidates = [True, False, True]
   \<and> (\<exists>savedTasks.
         map task_id savedTasks = [1, 2]
       \<and> map assignee savedTasks = [''Aman'', ''Rajiv'']
       \<and> map priority savedTasks = [''P3'', ''P2'']
       \<and> fst (process_transcript (Inr sample_transcript) (\<lambda>t. Parsed sample_payload)
                 strings_only (\<lambda>k. 1000) new_MemStorage) =
           (200, Extraction None ''Successfully extracted 2 tasks'' savedTasks)
       \<and> fst (process_audio (Some ([], ''standup.mp3'')) (\<lambda>b n. Inr sample_transcript)
                 (\<lambda>t. Parsed sample_payload) strings_only (\<lambda>k. 1000) new_MemStorage) =
           (200, Extraction (Some sample_transcript) ''Successfully extracted 2 tasks from audio''
              savedTasks)
       \<and> map (Map_get (tasks (snd (process_transcript (Inr sample_transcript)
                 (\<lambda>t. Parsed sample_payload) strings_only (\<lambda>k. 1000) new_MemStorage)))) [1, 2, 3]
           = [Some (savedTasks ! 0), Some (savedTasks ! 1), None]
       \<and> snd (process_audio (Some ([], ''standup.mp3'')) (\<lambda>b n. Inr sample_transcript)
                 (\<lambda>t. Parsed sample_payload) strings_only (\<lambda>k. 1000) new_MemStorage)
           = snd (process_transcript (Inr sample_transcript)
                 (\<lambda>t. Parsed sample_payload) strings_only (\<lambda>k. 1000) new_MemStorage))"
proof -
  define pt where "pt = process_transcript (Inr sample_transcript) (\<lambda>t. Parsed sample_payload)
               strings_only (\<lambda>k. 1000) new_MemStorage"
  define pa where "pa = process_audio (Some ([], ''standup.mp3'')) (\<lambda>b n. Inr sample_transcript)
               (\<lambda>t. Parsed sample_payload) strings_only (\<lambda>k. 1000) new_MemStorage"
  have h1: "trim sample_transcript \<noteq> []"
    by (simp add: trim_def sample_transcript_def is_white_space_def ascii_def)
  have h2: "extractTasksFromTranscript (\<lambda>t. Parsed sample_payload) sample_transcript
              = Inr sample_candidates"
    by (simp add: extractTasksFromTranscript_def try_extract_def tasks_of_result_def
        or_else_def map_callback_def sample_payload_def sample_item_def sample_candidates_def)
  have h3: "map has_required_fields sample_candidates = [True, False, True]"
    by (simp add: sample_candidates_def has_required_fields_def)
  have h4: "(\<lambda>b n. Inr sample_transcript) ([]::buffer) ''standup.mp3''
              = (Inr sample_transcript :: string + utf16)"
    by simp
  have flt: "filter (\<lambda>c. truthy (ex_description c) \<and> truthy (ex_assignee c)
                           \<and> truthy (ex_deadline c)) sample_candidates
               = [sample_candidates ! 0, sample_candidates ! 2]"
    by (simp add: sample_candidates_def)
  have acc: "list_all (accepts strings_only) [sample_candidates ! 0, sample_candidates ! 2]"
    by (simp add: sample_candidates_def accepts_def strings_only_def)
  have two: "show_nat 2 = ''2''"
    by (simp add: digit_char_def)
  from invalid_candidates_dropped[OF h1 h2, where parse = strings_only and clock = "\<lambda>k. 1000"
        and s = new_MemStorage and transcribe = "\<lambda>b n. Inr sample_transcript" and buf = "[]"
        and originalname = "''standup.mp3''"]
  obtain kept savedTasks s' where
    k: "kept = [sample_candidates ! 0, sample_candidates ! 2]"
    and st: "snd pt = s'"
    and sa: "snd pa = s'"
    and rel: "list_all2 (saved_from strings_only) savedTasks (take (length savedTasks) kept)"
    and ids: "map task_id savedTasks
                = [currentTaskId new_MemStorage ..
                   currentTaskId new_MemStorage + int (length savedTasks) - 1]"
    and stored: "list_all (\<lambda>t. Map_get (tasks s') (task_id t) = Some t) savedTasks"
    and other: "\<forall>k. k \<notin> set (map task_id savedTasks) \<longrightarrow>
                  Map_get (tasks s') k = Map_get (tasks new_MemStorage) k"
    and ok: "list_all (accepts strings_only) kept \<longrightarrow>
              length savedTasks = length kept
            \<and> fst pt = (200, Extraction None
                   (''Successfully extracted '' @ show_nat (length kept) @ '' tasks'') savedTasks)
            \<and> fst pa = (200, Extraction (Some sample_transcript)
                     (''Successfully extracted '' @ show_nat (length kept) @ '' tasks from audio'')
                     savedTasks)"
    unfolding pt_def pa_def flt using h4 by blast
  have acc': "list_all (accepts strings_only) kept"
    using acc k by simp
  have n: "length kept = 2"
    using k by simp
  have len: "length savedTasks = 2"
    using ok acc' n by simp
  then obtain t1 t2 where ts: "savedTasks = [t1, t2]"
    by (cases savedTasks; cases "tl savedTasks") auto
  have fp: "fst pt = (200, Extraction None ''Successfully extracted 2 tasks'' savedTasks)"
    using ok acc' n two by simp
  have fa: "fst pa = (200, Extraction (Some sample_transcript)
              ''Successfully extracted 2 tasks from audio'' savedTasks)"
    using ok acc' n two by simp
  have "[1 .. 2 :: int] = [1, 2]"
    using upto_cons[of 1 1] upto_cons[of 2 0] by simp
  then have idents: "task_id t1 = 1" "task_id t2 = 2"
    using ids ts by (simp_all add: new_MemStorage_def)
  have who: "map assignee savedTasks = [''Aman'', ''Rajiv'']"
    and prio: "map priority savedTasks = [''P3'', ''P2'']"
    using rel ts k
    by (simp_all add: sample_candidates_def saved_from_def strings_only_def)
  have found: "Map_get (tasks s') 1 = Some t1" "Map_get (tasks s') 2 = Some t2"
    using stored ts idents by simp_all
  have none: "Map_get (tasks s') 3 = None"
    using other ts idents by (simp add: new_MemStorage_def)
  show ?thesis
    using h1 h2 h3 who prio fp fa found none st sa ts idents unfolding pt_def pa_def
    by (intro conjI exI[of _ savedTasks]) simp_all
qed

text \<open>
  Claim C3 as stated fails. The upstream answers with one candidate whose description is
  the number 5. The description is no non-empty string, so the claim has the candidate
  dropped and the operation report success with no task. The check of the loop lets it
  through, since 5 is truthy, and it reaches the validator: with a validator that throws
  on a number the handler answers 500 with the validator's message, and with one that
  turns the number into a string the handler answers 200 with one saved task.
\<close>

theorem number_description_counterexample:
  "process_transcript (Inr sample_transcript) (\<lambda>t. Parsed number_payload) strings_only
      (\<lambda>k. 1000) new_MemStorage
     = ((500, Message ''Expected string, received number''), new_MemStorage)
   \<and> fst (process_transcript (Inr sample_transcript) (\<lambda>t. Parsed number_payload) coercing
           (\<lambda>k. 1000) new_MemStorage)
     = (200, Extraction None ''Successfully extracted 1 tasks''
          [\<lparr>task_id = 1, description = ''5'', assignee = ''Aman'', deadline = ''Friday'',
            priority = ''P3'', createdAt = 1000\<rparr>])"
  by (simp add: process_transcript_def trim_def sample_transcript_def is_white_space_def ascii_def
      extractTasksFromTranscript_def try_extract_def tasks_of_result_def or_else_def
      map_callback_def number_payload_def has_required_fields_def strings_only_def coercing_def
      transcript_error_def createTask_def Let_def
      priority_or_P3_def new_MemStorage_def digit_char_def)

text \<open>With any validator, that candidate is not dropped in silence: the handler does not
  answer with the success of no task.\<close>

lemma number_candidate_not_dropped:
  "fst (process_transcript (Inr sample_transcript) (\<lambda>t. Parsed number_payload) parse clock s)
     \<noteq> (200, Extraction None ''Successfully extracted 0 tasks'' [])"
proof (cases "parse \<lparr>ex_description = JNumber 5, ex_assignee = JString ''Aman'',
                       ex_deadline = JString ''Friday'', ex_priority = JString ''P3''\<rparr>")
  case (Inl e)
  then show ?thesis
    by (simp add: process_transcript_def trim_def sample_transcript_def is_white_space_def
        ascii_def extractTasksFromTranscript_def try_extract_def tasks_of_result_def or_else_def
        map_callback_def number_payload_def has_required_fields_def transcript_error_def)
next
  case (Inr v)
  then show ?thesis
    by (simp add: process_transcript_def trim_def sample_transcript_def is_white_space_def
        ascii_def extractTasksFromTranscript_def try_extract_def tasks_of_result_def or_else_def
        map_callback_def number_payload_def has_required_fields_def createTask_def Let_def
        split: prod.splits)
qed

subsection \<open>Silence\<close>

lemma dropWhile_all: "list_all P xs \<Longrightarrow> dropWhile P xs = []"
  by (induction xs) auto

lemma trim_white_space: "list_all is_white_space transcript \<Longrightarrow> trim transcript = []"
  by (simp add: trim_def dropWhile_all)

text \<open>
  Claim C9. When the transcription of the upload is empty or consists of white space
  only, POST /api/process-audio answers 400 with the message "No speech detected in audio
  file" and leaves the store as it was: nothing is extracted and no task is saved. White
  space is what \<^verbatim>\<open>String.prototype.trim\<close> strips: the white space and the line
  terminators of the language, the no-break space among them.
\<close>

theorem no_speech_detected:
  assumes "transcribe buf originalname = Inr transcript" and "list_all is_white_space transcript"
  shows "process_audio (Some (buf, originalname)) transcribe extract parse clock s =
           ((400, Message ''No speech detected in audio file''), s)"
  using assms by (simp add: process_audio_def trim_white_space)

theorem no_speech_detected_witness:
  "list_all is_white_space [0xA0, 0x3000, 0x20, 0x0A, 0xFEFF, 0x2028]
   \<and> process_audio (Some ([], ''silence.mp4''))
        (\<lambda>b n. Inr [0xA0, 0x3000, 0x20, 0x0A, 0xFEFF, 0x2028])
        (\<lambda>t. Parsed sample_payload) strings_only (\<lambda>k. 1000) one_task =
       ((400, Message ''No speech detected in audio file''), one_task)
   \<and> process_audio (Some ([], ''silence.mp4'')) (\<lambda>b n. Inr [])
        (\<lambda>t. Parsed sample_payload) strings_only (\<lambda>k. 1000) one_task =
       ((400, Message ''No speech detected in audio file''), one_task)"
proof -
  have h: "list_all is_white_space [0xA0, 0x3000, 0x20, 0x0A, 0xFEFF, 0x2028]"
    by (simp add: is_white_space_def)
  from h
    no_speech_detected[of "\<lambda>b n. Inr [0xA0, 0x3000, 0x20, 0x0A, 0xFEFF, 0x2028]" "[]"
      "''silence.mp4''" "[0xA0, 0x3000, 0x20, 0x0A, 0xFEFF, 0x2028]"
      "\<lambda>t. Parsed sample_payload" strings_only "\<lambda>k. 1000" one_task]
    no_speech_detected[of "\<lambda>b n. Inr []" "[]" "''silence.mp4''" "[]"
      "\<lambda>t. Parsed sample_payload" strings_only "\<lambda>k. 1000" one_task]
  show ?thesis by simp
qed

section \<open>The task extraction client\<close>

lemma map_callback_not_null: "task \<noteq> JNull \<Longrightarrow> \<exists>t. map_callback task = Inr t"
  by (cases task) (simp_all add: map_callback_def)

lemma map_callback_null: "\<exists>m. map_callback JNull = Inl m"
  by (simp add: map_callback_def)

lemma map_tasks_ok: "JNull \<notin> set xs \<Longrightarrow> \<exists>ts. map_tasks xs = Inr ts \<and> length ts = length xs"
proof (induction xs)
  case Nil
  then show ?case by simp
next
  case (Cons x xs)
  then obtain t where "map_callback x = Inr t"
    using map_callback_not_null[of x] by auto
  moreover obtain ts where "map_tasks xs = Inr ts" "length ts = length xs"
    using Cons by auto
  ultimately show ?case by simp
qed

lemma map_tasks_null: "JNull \<in> set xs \<Longrightarrow> \<exists>m. map_tasks xs = Inl m"
proof (induction xs)
  case Nil
  then show ?case by simp
next
  case (Cons x xs)
  show ?case
  proof (cases "x = JNull")
    case True
    then show ?thesis using map_callback_null by auto
  next
    case False
    then obtain t where "map_callback x = Inr t"
      using map_callback_not_null[of x] by auto
    moreover obtain m where "map_tasks xs = Inl m"
      using Cons False by auto
    ultimately show ?thesis by simp
  qed
qed

text \<open>
  Claim C6, as the code has it. Let the upstream answer parse to the value \<open>v\<close>.
  \<^item> If \<open>v\<close> is a list, or is no list and its property \<^verbatim>\<open>tasks\<close> is a list, and no
    element of that list is \<^verbatim>\<open>null\<close>, the extraction returns one candidate for each
    element.
  \<^item> If \<open>v\<close> is no list and not \<^verbatim>\<open>null\<close>, and its property \<^verbatim>\<open>tasks\<close> is missing or
    falsy (an object without the key, a number, a string, a boolean), the extraction
    returns the empty list and no error.
  \<^item> The extraction fails, with the message prefixed by "Failed to process transcript
    with AI: ", when \<open>v\<close> is \<^verbatim>\<open>null\<close>, when its property \<^verbatim>\<open>tasks\<close> is truthy and no
    list, or when an element of the list is \<^verbatim>\<open>null\<close>.
\<close>

theorem extraction_payload_shapes:
  assumes "upstream transcript = Parsed v"
  shows "(\<forall>xs. v = JArray xs \<and> JNull \<notin> set xs \<longrightarrow>
            (\<exists>ts. extractTasksFromTranscript upstream transcript = Inr ts \<and> length ts = length xs))
       \<and> (\<forall>xs. \<not> isArray v \<and> read_property v ''tasks'' = Inr (Some (JArray xs)) \<and> JNull \<notin> set xs \<longrightarrow>
            (\<exists>ts. extractTasksFromTranscript upstream transcript = Inr ts \<and> length ts = length xs))
       \<and> (\<not> isArray v \<and> (read_property v ''tasks'' = Inr None
              \<or> (\<exists>t. read_property v ''tasks'' = Inr (Some t) \<and> \<not> truthy t)) \<longrightarrow>
            extractTasksFromTranscript upstream transcript = Inr [])
       \<and> (v = JNull
           \<or> (\<exists>t. \<not> isArray v \<and> read_property v ''tasks'' = Inr (Some t) \<and> truthy t \<and> \<not> isArray t)
           \<or> (\<exists>xs. (v = JArray xs \<or> \<not> isArray v \<and> read_property v ''tasks'' = Inr (Some (JArray xs)))
                  \<and> JNull \<in> set xs) \<longrightarrow>
            (\<exists>m. extractTasksFromTranscript upstream transcript = Inl (failure_prefix @ m)))"
proof (intro conjI allI impI)
  fix xs assume "v = JArray xs \<and> JNull \<notin> set xs"
  then show "\<exists>ts. extractTasksFromTranscript upstream transcript = Inr ts \<and> length ts = length xs"
    using assms map_tasks_ok[of xs]
    by (auto simp: extractTasksFromTranscript_def try_extract_def tasks_of_result_def)
next
  fix xs assume "\<not> isArray v \<and> read_property v ''tasks'' = Inr (Some (JArray xs)) \<and> JNull \<notin> set xs"
  then show "\<exists>ts. extractTasksFromTranscript upstream transcript = Inr ts \<and> length ts = length xs"
    using assms map_tasks_ok[of xs]
    by (auto simp: extractTasksFromTranscript_def try_extract_def tasks_of_result_def or_else_def)
next
  assume "\<not> isArray v \<and> (read_property v ''tasks'' = Inr None
              \<or> (\<exists>t. read_property v ''tasks'' = Inr (Some t) \<and> \<not> truthy t))"
  then show "extractTasksFromTranscript upstream transcript = Inr []"
    using assms
    by (auto simp: extractTasksFromTranscript_def try_extract_def tasks_of_result_def or_else_def)
next
  assume "v = JNull
           \<or> (\<exists>t. \<not> isArray v \<and> read_property v ''tasks'' = Inr (Some t) \<and> truthy t \<and> \<not> isArray t)
           \<or> (\<exists>xs. (v = JArray xs \<or> \<not> isArray v \<and> read_property v ''tasks'' = Inr (Some (JArray xs)))
                  \<and> JNull \<in> set xs)"
  then consider (is_null) "v = JNull"
    | (not_list) t where "\<not> isArray v" "read_property v ''tasks'' = Inr (Some t)"
        "truthy t" "\<not> isArray t"
    | (list_null) xs where "v = JArray xs" "JNull \<in> set xs"
    | (tasks_null) xs where "\<not> isArray v" "read_property v ''tasks'' = Inr (Some (JArray xs))"
        "JNull \<in> set xs"
    by blast
  then show "\<exists>m. extractTasksFromTranscript upstream transcript = Inl (failure_prefix @ m)"
  proof cases
    case is_null
    then show ?thesis using assms
      by (simp add: extractTasksFromTranscript_def try_extract_def tasks_of_result_def
          failure_prefix_def)
  next
    case not_list
    then show ?thesis using assms
      by (cases t) (simp_all add: extractTasksFromTranscript_def try_extract_def
          tasks_of_result_def failure_prefix_def or_else_def)
  next
    case list_null
    then show ?thesis using assms map_tasks_null[of xs]
      by (auto simp: extractTasksFromTranscript_def try_extract_def tasks_of_result_def
          failure_prefix_def)
  next
    case tasks_null
    then show ?thesis using assms map_tasks_null[of xs]
      by (auto simp: extractTasksFromTranscript_def try_extract_def tasks_of_result_def
          failure_prefix_def or_else_def)
  qed
qed

theorem extraction_payload_shapes_witness:
  "(\<exists>ts. extractTasksFromTranscript (\<lambda>t. Parsed (JArray [sample_item])) sample_transcript = Inr ts
         \<and> length ts = 1)
   \<and> (\<exists>ts. extractTasksFromTranscript (\<lambda>t. Parsed (JObject [(''tasks'', JArray [sample_item])]))
              sample_transcript = Inr ts
         \<and> length ts = 1)
   \<and> extractTasksFromTranscript (\<lambda>t. Parsed (JObject [(''tasks'', JNumber 0)])) sample_transcript = Inr []
   \<and> extractTasksFromTranscript (\<lambda>t. Parsed (JNumber 7)) sample_transcript = Inr []
   \<and> (\<exists>m. extractTasksFromTranscript (\<lambda>t. Parsed JNull) sample_transcript = Inl (failure_prefix @ m))
   \<and> (\<exists>m. extractTasksFromTranscript (\<lambda>t. Parsed (JObject [(''tasks'', JString ''none'')]))
              sample_transcript = Inl (failure_prefix @ m))
   \<and> (\<exists>m. extractTasksFromTranscript (\<lambda>t. Parsed (JArray [sample_item, JNull]))
              sample_transcript = Inl (failure_prefix @ m))"
proof -
  have item: "sample_item \<noteq> JNull"
    by (simp add: sample_item_def)
  have 1: "\<exists>ts. extractTasksFromTranscript (\<lambda>t. Parsed (JArray [sample_item])) sample_transcript = Inr ts
         \<and> length ts = 1"
    using extraction_payload_shapes[of "\<lambda>t. Parsed (JArray [sample_item])" sample_transcript
        "JArray [sample_item]"] item
    by simp
  have 2: "\<exists>ts. extractTasksFromTranscript (\<lambda>t. Parsed (JObject [(''tasks'', JArray [sample_item])]))
              sample_transcript = Inr ts \<and> length ts = 1"
    using extraction_payload_shapes[of "\<lambda>t. Parsed (JObject [(''tasks'', JArray [sample_item])])"
        sample_transcript "JObject [(''tasks'', JArray [sample_item])]"] item
    by simp
  have 3: "extractTasksFromTranscript (\<lambda>t. Parsed (JObject [(''tasks'', JNumber 0)])) sample_transcript
             = Inr []"
    using extraction_payload_shapes[of "\<lambda>t. Parsed (JObject [(''tasks'', JNumber 0)])"
        sample_transcript "JObject [(''tasks'', JNumber 0)]"]
    by simp
  have 4: "extractTasksFromTranscript (\<lambda>t. Parsed (JNumber 7)) sample_transcript = Inr []"
    using extraction_payload_shapes[of "\<lambda>t. Parsed (JNumber 7)" sample_transcript "JNumber 7"]
    by simp
  have 5: "\<exists>m. extractTasksFromTranscript (\<lambda>t. Parsed JNull) sample_transcript
                 = Inl (failure_prefix @ m)"
    using extraction_payload_shapes[of "\<lambda>t. Parsed JNull" sample_transcript JNull]
    by simp
  have 6: "\<exists>m. extractTasksFromTranscript (\<lambda>t. Parsed (JObject [(''tasks'', JString ''none'')]))
              sample_transcript = Inl (failure_prefix @ m)"
    using extraction_payload_shapes[of "\<lambda>t. Parsed (JObject [(''tasks'', JString ''none'')])"
        sample_transcript "JObject [(''tasks'', JString ''none'')]"]
    by simp
  have 7: "\<exists>m. extractTasksFromTranscript (\<lambda>t. Parsed (JArray [sample_item, JNull]))
              sample_transcript = Inl (failure_prefix @ m)"
    using extraction_payload_shapes[of "\<lambda>t. Parsed (JArray [sample_item, JNull])"
        sample_transcript "JArray [sample_item, JNull]"]
    by simp
  from 1 2 3 4 5 6 7 show ?thesis by blast
qed

text \<open>
  Claim C6 as stated fails: the upstream answers with an object that has no
  \<^verbatim>\<open>tasks\<close> key (its list stands under another key). The payload is neither a list nor
  an object with the known key, yet the extraction returns the empty list, not an error.
\<close>

theorem unknown_shape_counterexample:
  "extractTasksFromTranscript
     (\<lambda>t. Parsed (JObject [(''items'', JArray [sample_item])])) sample_transcript = Inr []"
  by (simp add: extractTasksFromTranscript_def try_extract_def tasks_of_result_def or_else_def)

section \<open>CSV export\<close>

text \<open>
  Claim C5 does not hold of the code. \<^verbatim>\<open>exportToCSV\<close> puts description, assignee and
  deadline between double quotes and writes a double quote inside a field as it is. The
  two tasks \<open>task_a\<close> and \<open>task_b\<close> differ in description and in assignee, and their
  exports are the same file, so no reader of the file can give back both.
\<close>

theorem csv_export_not_injective:
  "exportToCSV [task_a] = exportToCSV [task_b]
   \<and> exportToCSV [task_a] \<noteq> None
   \<and> description task_a \<noteq> description task_b
   \<and> assignee task_a \<noteq> assignee task_b"
  by (simp add: exportToCSV_def csvContent_def csv_row_def quoted_def task_a_def task_b_def
      headers_def)

section \<open>Video to audio\<close>

text \<open>When FFmpeg fails to start, the handler of the \<^verbatim>\<open>error\<close> event removes both scratch
  files.\<close>

lemma spawn_error_removes_both:
  "snd (extractAudioFromVideo videoBuffer filename now1 now2 True (SpawnError m) read_ok fs)
      (tempVideoPath now1 filename) = None
   \<and> snd (extractAudioFromVideo videoBuffer filename now1 now2 True (SpawnError m) read_ok fs)
      (tempAudioPath now2) = None"
  by (simp add: extractAudioFromVideo_def Let_def unlinkSync_def)

text \<open>
  Claim C7 does not hold of the code. FFmpeg starts, writes part of the output and
  exits with code 1. The handler of the \<^verbatim>\<open>close\<close> event removes the video file and
  rejects; the audio file is still there when the call has returned.
\<close>

theorem audio_file_left_behind:
  "snd (extractAudioFromVideo [0, 1, 2] ''standup.mp4'' 1700000000000 1700000000000 True
          (Close (Some 1) ''Invalid data found when processing input'' (Some [7, 7])) True Map.empty)
     (tempAudioPath 1700000000000) = Some [7, 7]"
  by (simp add: extractAudioFromVideo_def Let_def unlinkSync_def tempAudioPath_def tempVideoPath_def)

end
